theory Spec2Isabelle
  imports Main "HOL-Library.Word"
begin

section \<open>Strings of the script\<close>

text \<open>
  A string of the script is a sequence of 16-bit code units (UTF-16). A literal of the
  source is written \<open>js ''...''\<close>; code units outside ASCII are written as numerals.
\<close>

type_synonym codeunit = "16 word"
type_synonym jsstring = "codeunit list"

definition js :: "string \<Rightarrow> jsstring" where
  "js s = map of_char s"

definition dot :: codeunit where
  "dot = 0x2E"

text \<open>
  \<open>String.prototype.toLowerCase\<close> is a built-in of the host, not code of the script. It
  applies the locale-insensitive lower-case mapping of the Unicode character database.
  The model gives the mapping of the Basic Latin capitals, of U+0130 (LATIN CAPITAL
  LETTER I WITH DOT ABOVE, the one code point whose unconditional lower-case mapping is
  longer than the code point: it becomes U+0069 U+0307) and of U+212A (KELVIN SIGN, which
  becomes U+006B). Every other code unit is mapped by the database to one code unit outside
  Basic Latin; the model keeps it as it is.
\<close>

definition toLowerUnit :: "codeunit \<Rightarrow> jsstring" where
  "toLowerUnit c =
     (if 0x41 \<le> c \<and> c \<le> 0x5A then [c + 0x20]
      else if c = 0x130 then [0x69, 0x307]
      else if c = 0x212A then [0x6B]
      else [c])"

definition toLowerCase :: "jsstring \<Rightarrow> jsstring" where
  "toLowerCase s = concat (map toLowerUnit s)"

text \<open>
  \<open>s.lastIndexOf(c)\<close> for a pattern \<open>c\<close> of one code unit: the index of the last
  occurrence, \<open>-1\<close> when there is none.
\<close>

fun lastIndexOf :: "jsstring \<Rightarrow> codeunit \<Rightarrow> int" where
  "lastIndexOf [] c = -1"
| "lastIndexOf (x # xs) c =
     (let r = lastIndexOf xs c
      in if r \<noteq> -1 then r + 1 else if x = c then 0 else -1)"

text \<open>
  \<open>s.substring(start)\<close>: a start below 0 counts as 0, a start beyond the end as the
  length; the result runs to the end of the string.
\<close>

definition substring :: "jsstring \<Rightarrow> int \<Rightarrow> jsstring" where
  "substring s start = drop (nat (min (max start 0) (int (length s)))) s"

text \<open>\<open>Array.prototype.indexOf\<close>: the first index holding the value, \<open>-1\<close> when absent.\<close>

fun indexOf :: "'a list \<Rightarrow> 'a \<Rightarrow> int" where
  "indexOf [] v = -1"
| "indexOf (x # xs) v =
     (if x = v then 0
      else (let r = indexOf xs v in if r = -1 then -1 else r + 1))"

section \<open>The page\<close>

text \<open>
  The state is the part of the document, of the window and of local storage that the
  script reads or writes. An element that \<open>document.getElementById\<close> may fail to find is
  an \<open>option\<close>; \<open>None\<close> is the \<open>null\<close> the lookup returns. The document is static:
  the script never removes one of the elements it looks up by id.
\<close>

datatype error = TypeError

record file_handle =
  name :: jsstring

text \<open>\<open>classList\<close> is the ordered set of class tokens of an element.\<close>

record element =
  classList :: "jsstring list"

text \<open>
  The upload zone; \<open>uploadtext\<close> is the \<open>textContent\<close> of its first descendant of class
  \<open>upload-text\<close>, \<open>None\<close> when \<open>querySelector\<close> finds no such descendant.
\<close>

record zone_element = element +
  uploadtext :: "jsstring option"

text \<open>
  The file input: its selected files, and how often \<open>click()\<close> has opened the native
  picker.
\<close>

record input_element =
  files :: "file_handle list"
  pickerOpened :: nat

text \<open>A node made by \<open>document.createElement\<close>, told apart from others by \<open>nodeId\<close>.\<close>

record alert_node =
  nodeId :: nat
  className :: jsstring
  innerHTML :: jsstring

text \<open>
  \<open>uploadForm\<close> holds the submissions of the form so far, each the list of files the file
  input (a control of the form) carried when \<open>submit()\<close> ran. \<open>alertContainer\<close> holds the
  children of the container, first child first. \<open>timers\<close> are the pending
  \<open>setTimeout\<close> calls of the alert manager: delay in milliseconds and the node the
  callback closes over.
\<close>

record page =
  dataTheme :: "jsstring option"
  localStorage :: "jsstring \<rightharpoonup> jsstring"
  themeToggle :: "jsstring option"
  sidebarToggle :: "element option"
  sidebar :: "element option"
  innerWidth :: int
  uploadZone :: "zone_element option"
  cvFileInput :: "input_element option"
  uploadForm :: "file_handle list list option"
  alertContainer :: "alert_node list option"
  timers :: "(nat \<times> nat) list"
  created :: nat

text \<open>
  A listener either returns, with the page as it left it, or throws, with the page as it
  was at the throw.
\<close>

type_synonym result = "(error \<times> page) + page"

definition classList_add :: "jsstring \<Rightarrow> jsstring list \<Rightarrow> jsstring list" where
  "classList_add token cl = (if token \<in> set cl then cl else cl @ [token])"

definition classList_remove :: "jsstring \<Rightarrow> jsstring list \<Rightarrow> jsstring list" where
  "classList_remove token cl = filter (\<lambda>t. t \<noteq> token) cl"

definition classList_toggle :: "jsstring \<Rightarrow> jsstring list \<Rightarrow> jsstring list" where
  "classList_toggle token cl =
     (if token \<in> set cl then classList_remove token cl else cl @ [token])"

section \<open>Theme toggle\<close>

definition updateThemeIcon :: "jsstring \<Rightarrow> page \<Rightarrow> page" where
  \<open>updateThemeIcon theme p =
     (case themeToggle p of
        None \<Rightarrow> p
      | Some _ \<Rightarrow>
          p\<lparr>themeToggle :=
              Some (if theme = js ''dark''
                    then js ''<i class="bi bi-sun"></i>''
                    else js ''<i class="bi bi-moon"></i>'')\<rparr>)\<close>

text \<open>
  \<open>localStorage.getItem('theme') || 'light'\<close>: the default is taken when the item is
  absent and when it is the empty string, the one falsy string.
\<close>

definition initThemeToggle :: "page \<Rightarrow> page" where
  "initThemeToggle p =
     (case themeToggle p of
        None \<Rightarrow> p
      | Some _ \<Rightarrow>
          (let saved = (case localStorage p (js ''theme'') of
                          None \<Rightarrow> js ''light''
                        | Some v \<Rightarrow> if v = [] then js ''light'' else v)
           in updateThemeIcon saved (p\<lparr>dataTheme := Some saved\<rparr>)))"

text \<open>
  The click listener of the toggle. It is registered only when the toggle exists
  (line 13), so on a page without the toggle no listener runs.
\<close>

definition toggle_click :: "page \<Rightarrow> page" where
  "toggle_click p =
     (case themeToggle p of
        None \<Rightarrow> p
      | Some _ \<Rightarrow>
          (let current = dataTheme p;
               next = (if current = Some (js ''dark'') then js ''light'' else js ''dark'')
           in updateThemeIcon next
                (p\<lparr>dataTheme := Some next,
                   localStorage := (localStorage p)(js ''theme'' \<mapsto> next)\<rparr>)))"

section \<open>Sidebar toggle\<close>

text \<open>
  A click is given by its target and the target's ancestors, target first.
  \<open>el.contains(e.target)\<close> holds when \<open>el\<close> is the target or one of its ancestors.
\<close>

datatype node = SidebarNode | SidebarToggleNode | OtherNode nat

definition contains :: "node \<Rightarrow> node list \<Rightarrow> bool" where
  "contains el path = (el \<in> set path)"

text \<open>
  \<open>initSidebarToggle\<close> registers its two listeners only when both elements exist
  (line 40); the result is the pair the listeners close over.
\<close>

definition initSidebarToggle :: "page \<Rightarrow> (element \<times> element) option" where
  "initSidebarToggle p =
     (case (sidebarToggle p, sidebar p) of
        (Some btn, Some sb) \<Rightarrow> Some (btn, sb)
      | _ \<Rightarrow> None)"

definition btn_click :: "page \<Rightarrow> page" where
  "btn_click p =
     (case initSidebarToggle p of
        None \<Rightarrow> p
      | Some (btn, sb) \<Rightarrow>
          p\<lparr>sidebar := Some (sb\<lparr>classList := classList_toggle (js ''show'') (classList sb)\<rparr>)\<rparr>)"

definition document_click :: "node list \<Rightarrow> page \<Rightarrow> page" where
  "document_click path p =
     (case initSidebarToggle p of
        None \<Rightarrow> p
      | Some (btn, sb) \<Rightarrow>
          if innerWidth p \<le> 992 \<and> \<not> contains SidebarNode path
               \<and> \<not> contains SidebarToggleNode path
          then p\<lparr>sidebar := Some (sb\<lparr>classList := classList_remove (js ''show'') (classList sb)\<rparr>)\<rparr>
          else p)"

section \<open>Alerts\<close>

definition showAlert :: "jsstring \<Rightarrow> jsstring \<Rightarrow> page \<Rightarrow> page" where
  \<open>showAlert message type p =
     (case alertContainer p of
        None \<Rightarrow> p
      | Some children \<Rightarrow>
          (let alert = \<lparr>nodeId = created p,
                        className = js ''alert alert-'' @ type @ js '' alert-dismissible fade show'',
                        innerHTML = message @
                          js ''<button type="button" class="btn-close" data-bs-dismiss="alert"></button>''\<rparr>
           in p\<lparr>alertContainer := Some (alert # children),
                timers := timers p @ [(5000, nodeId alert)],
                created := created p + 1\<rparr>))\<close>

text \<open>\<open>alert.parentNode\<close> is non-null while the node is a child of the container.\<close>

definition parentNode :: "nat \<Rightarrow> page \<Rightarrow> bool" where
  "parentNode a p =
     (case alertContainer p of
        None \<Rightarrow> False
      | Some children \<Rightarrow> a \<in> set (map nodeId children))"

text \<open>
  The callback \<open>showAlert\<close> schedules. Closing the alert is the work of the Bootstrap
  library, which is outside the script: it is the parameter \<open>close\<close>.
\<close>

definition showAlert_timeout :: "(nat \<Rightarrow> page \<Rightarrow> page) \<Rightarrow> nat \<Rightarrow> page \<Rightarrow> page" where
  "showAlert_timeout close a p = (if parentNode a p then close a p else p)"

section \<open>Upload zone\<close>

definition allowedExtensions :: "jsstring list" where
  "allowedExtensions = [js ''.pdf'', js ''.docx'', js ''.txt'']"

definition updateFileName :: "jsstring \<Rightarrow> page \<Rightarrow> page" where
  "updateFileName n p =
     (case uploadZone p of
        None \<Rightarrow> p
      | Some zone \<Rightarrow>
          (case uploadtext zone of
             None \<Rightarrow> p
           | Some _ \<Rightarrow>
               p\<lparr>uploadZone := Some (zone\<lparr>uploadtext := Some (js ''Uploading: '' @ n)\<rparr>)\<rparr>))"

text \<open>
  \<open>document.getElementById('uploadForm').submit()\<close>: the lookup is not checked, so a
  page without the form makes the call throw a \<open>TypeError\<close>. A submission carries the
  files of the file input at that moment.
\<close>

definition uploadForm_submit :: "page \<Rightarrow> result" where
  "uploadForm_submit p =
     (case uploadForm p of
        None \<Rightarrow> Inl (TypeError, p)
      | Some submissions \<Rightarrow>
          Inr (p\<lparr>uploadForm :=
                   Some (submissions @
                     [case cvFileInput p of None \<Rightarrow> [] | Some input \<Rightarrow> files input])\<rparr>))"

text \<open>
  \<open>initUploadZone\<close> registers its listeners only when the zone and the file input both
  exist (line 59); the result is the pair the listeners close over.
\<close>

definition initUploadZone :: "page \<Rightarrow> (zone_element \<times> input_element) option" where
  "initUploadZone p =
     (case (uploadZone p, cvFileInput p) of
        (Some zone, Some input) \<Rightarrow> Some (zone, input)
      | _ \<Rightarrow> None)"

definition zone_click :: "page \<Rightarrow> page" where
  "zone_click p =
     (case initUploadZone p of
        None \<Rightarrow> p
      | Some (zone, input) \<Rightarrow>
          p\<lparr>cvFileInput := Some (input\<lparr>pickerOpened := pickerOpened input + 1\<rparr>)\<rparr>)"

definition zone_dragover :: "page \<Rightarrow> page" where
  "zone_dragover p =
     (case initUploadZone p of
        None \<Rightarrow> p
      | Some (zone, input) \<Rightarrow>
          p\<lparr>uploadZone :=
              Some (zone\<lparr>classList := classList_add (js ''dragover'') (classList zone)\<rparr>)\<rparr>)"

definition zone_dragleave :: "page \<Rightarrow> page" where
  "zone_dragleave p =
     (case initUploadZone p of
        None \<Rightarrow> p
      | Some (zone, input) \<Rightarrow>
          p\<lparr>uploadZone :=
              Some (zone\<lparr>classList := classList_remove (js ''dragover'') (classList zone)\<rparr>)\<rparr>)"

text \<open>
  The extension test of the drop listener (line 83): the index of the last dot is taken
  in the name as given, the substring in the lower-cased name.
\<close>

definition ext_of :: "jsstring \<Rightarrow> jsstring" where
  "ext_of n = substring (toLowerCase n) (lastIndexOf n dot)"

text \<open>
  The drop listener; \<open>dropped\<close> is \<open>e.dataTransfer.files\<close>. (\<open>e.preventDefault()\<close> acts
  on the event, which is no part of the page.)
\<close>

definition zone_drop :: "file_handle list \<Rightarrow> page \<Rightarrow> result" where
  "zone_drop dropped p =
     (case initUploadZone p of
        None \<Rightarrow> Inr p
      | Some (zone, input) \<Rightarrow>
          (let p1 = p\<lparr>uploadZone :=
                       Some (zone\<lparr>classList := classList_remove (js ''dragover'') (classList zone)\<rparr>)\<rparr>
           in case dropped of
                [] \<Rightarrow> Inr p1
              | file # _ \<Rightarrow>
                  (let ext = ext_of (name file)
                   in if indexOf allowedExtensions ext = -1
                      then Inr (showAlert (js ''Only PDF, DOCX, and TXT files are accepted.'')
                                  (js ''danger'') p1)
                      else uploadForm_submit
                             (updateFileName (name file)
                                (p1\<lparr>cvFileInput := Some (input\<lparr>files := dropped\<rparr>)\<rparr>)))))"

text \<open>
  The change listener of the file input; the native picker has stored the selection in
  \<open>input.files\<close> before the event.
\<close>

definition input_change :: "page \<Rightarrow> result" where
  "input_change p =
     (case initUploadZone p of
        None \<Rightarrow> Inr p
      | Some (zone, input) \<Rightarrow>
          (case files input of
             [] \<Rightarrow> Inr p
           | file # _ \<Rightarrow> uploadForm_submit (updateFileName (name file) p)))"

text \<open>The native picker reporting a selection: the files are stored, then \<open>change\<close> fires.\<close>

definition picker_select :: "file_handle list \<Rightarrow> page \<Rightarrow> result" where
  "picker_select selection p =
     (case cvFileInput p of
        None \<Rightarrow> Inr p
      | Some input \<Rightarrow> input_change (p\<lparr>cvFileInput := Some (input\<lparr>files := selection\<rparr>)\<rparr>))"

section \<open>The extension of a file name, as the specification words it\<close>

text \<open>
  The extension of a name is its substring from the last dot to the end; a name without a
  dot has none.
\<close>

fun extension :: "jsstring \<Rightarrow> jsstring option" where
  "extension [] = None"
| "extension (c # cs) =
     (case extension cs of
        Some e \<Rightarrow> Some e
      | None \<Rightarrow> if c = dot then Some (c # cs) else None)"

text \<open>A name is accepted when its extension, in lower case, is on the allow-list.\<close>

definition allowListed :: "jsstring \<Rightarrow> bool" where
  "allowListed n =
     (case extension n of
        None \<Rightarrow> False
      | Some e \<Rightarrow> toLowerCase e \<in> set allowedExtensions)"

text \<open>The part of a name before its extension; the whole name when there is none.\<close>

definition stem :: "jsstring \<Rightarrow> jsstring" where
  "stem n =
     (case extension n of
        None \<Rightarrow> n
      | Some e \<Rightarrow> take (length n - length e) n)"

text \<open>The test of the drop listener (line 84) as a predicate on the name.\<close>

definition accepts :: "jsstring \<Rightarrow> bool" where
  "accepts n = (indexOf allowedExtensions (ext_of n) \<noteq> - 1)"

section \<open>What a listener leaves behind\<close>

definition final_page :: "result \<Rightarrow> page" where
  "final_page r = (case r of Inl (e, p) \<Rightarrow> p | Inr p \<Rightarrow> p)"

definition thrown :: "result \<Rightarrow> error option" where
  "thrown r = (case r of Inl (e, p) \<Rightarrow> Some e | Inr p \<Rightarrow> None)"

text \<open>The submissions of the upload form, oldest first; none on a page without the form.\<close>

definition submissions :: "page \<Rightarrow> file_handle list list" where
  "submissions p = (case uploadForm p of None \<Rightarrow> [] | Some s \<Rightarrow> s)"

text \<open>The alert the drop listener shows on a rejected drop, as node number \<open>i\<close>.\<close>

definition rejection_alert :: "nat \<Rightarrow> alert_node" where
  \<open>rejection_alert i =
     \<lparr>nodeId = i,
      className = js ''alert alert-danger alert-dismissible fade show'',
      innerHTML = js ''Only PDF, DOCX, and TXT files are accepted.<button type="button" class="btn-close" data-bs-dismiss="alert"></button>''\<rparr>\<close>

section \<open>A page with every element, and pages lacking some\<close>

definition full_zone :: zone_element where
  "full_zone = \<lparr>classList = [js ''upload-zone'', js ''dragover''],
                 uploadtext = Some (js ''Drop your CV here'')\<rparr>"

definition full_input :: input_element where
  "full_input = \<lparr>files = [], pickerOpened = 0\<rparr>"

definition full_sidebar :: element where
  "full_sidebar = \<lparr>classList = [js ''sidebar'', js ''show'']\<rparr>"

definition full_page :: page where
  "full_page =
     \<lparr>dataTheme = Some (js ''light''),
      localStorage = Map.empty,
      themeToggle = Some [],
      sidebarToggle = Some \<lparr>classList = []\<rparr>,
      sidebar = Some full_sidebar,
      innerWidth = 768,
      uploadZone = Some full_zone,
      cvFileInput = Some full_input,
      uploadForm = Some [],
      alertContainer = Some [],
      timers = [],
      created = 0\<rparr>"

definition formless_page :: page where
  "formless_page = full_page\<lparr>uploadForm := None\<rparr>"

section \<open>Lists and strings\<close>

lemma indexOf_lower: "- 1 \<le> indexOf xs v"
  by (induction xs) (auto simp: Let_def)

lemma indexOf_absent: "indexOf xs v = - 1 \<longleftrightarrow> v \<notin> set xs"
proof (induction xs)
  case Nil
  show ?case by simp
next
  case (Cons x xs)
  have "- 1 \<le> indexOf xs v" by (rule indexOf_lower)
  with Cons show ?case by (auto simp: Let_def)
qed

lemma lastIndexOf_lower: "- 1 \<le> lastIndexOf s c"
  by (induction s) (auto simp: Let_def)

lemma lastIndexOf_absent: "lastIndexOf s c = - 1 \<longleftrightarrow> c \<notin> set s"
proof (induction s)
  case Nil
  show ?case by simp
next
  case (Cons x xs)
  have "- 1 \<le> lastIndexOf xs c" by (rule lastIndexOf_lower)
  with Cons show ?case by (auto simp: Let_def)
qed

lemma lastIndexOf_append:
  "c \<notin> set suf \<Longrightarrow> lastIndexOf (pre @ c # suf) c = int (length pre)"
proof (induction pre)
  case Nil
  then show ?case by (simp add: lastIndexOf_absent Let_def)
next
  case (Cons x pre)
  then show ?case by (simp add: Let_def)
qed

lemma last_occurrence:
  assumes "c \<in> set s"
  obtains pre suf where "s = pre @ c # suf" and "c \<notin> set suf"
  using split_list_last [OF assms] by blast

lemma extension_absent: "extension n = None \<longleftrightarrow> dot \<notin> set n"
  by (induction n) (auto split: option.splits)

lemma extension_append:
  "dot \<notin> set suf \<Longrightarrow> extension (pre @ dot # suf) = Some (dot # suf)"
proof (induction pre)
  case Nil
  then have "extension suf = None" by (simp add: extension_absent)
  then show ?case by simp
next
  case (Cons x pre)
  then show ?case by simp
qed

lemma stem_append: "dot \<notin> set suf \<Longrightarrow> stem (pre @ dot # suf) = pre"
  by (simp add: stem_def extension_append)

lemma toLowerCase_append: "toLowerCase (a @ b) = toLowerCase a @ toLowerCase b"
  by (simp add: toLowerCase_def)

lemma toLowerCase_Cons: "toLowerCase (c # s) = toLowerUnit c @ toLowerCase s"
  by (simp add: toLowerCase_def)

lemma toLowerUnit_dot: "toLowerUnit dot = [dot]"
  by (simp add: toLowerUnit_def dot_def)

text \<open>Lower-casing neither makes a dot nor loses one.\<close>

lemma dot_in_toLowerUnit: "dot \<in> set (toLowerUnit c) \<longleftrightarrow> c = dot"
  by (auto simp: toLowerUnit_def dot_def split: if_splits)

lemma dot_in_toLowerCase: "dot \<in> set (toLowerCase s) \<longleftrightarrow> dot \<in> set s"
  by (induction s) (auto simp: toLowerCase_def dot_in_toLowerUnit)

text \<open>Lower-casing never shortens a string, and lengthens it exactly when U+0130 occurs.\<close>

lemma length_toLowerUnit: "1 \<le> length (toLowerUnit c)"
  by (simp add: toLowerUnit_def)

lemma length_toLowerCase_lower: "length s \<le> length (toLowerCase s)"
proof (induction s)
  case Nil
  show ?case by (simp add: toLowerCase_def)
next
  case (Cons c s)
  have "1 \<le> length (toLowerUnit c)" by (rule length_toLowerUnit)
  with Cons show ?case by (simp add: toLowerCase_Cons)
qed

lemma length_toLowerCase_plain:
  "0x130 \<notin> set s \<Longrightarrow> length (toLowerCase s) = length s"
  by (induction s) (auto simp: toLowerCase_def toLowerUnit_def)

lemma length_toLowerCase_longer:
  "0x130 \<in> set s \<Longrightarrow> length s < length (toLowerCase s)"
proof (induction s)
  case Nil
  then show ?case by simp
next
  case (Cons c s)
  have len: "length s \<le> length (toLowerCase s)" by (rule length_toLowerCase_lower)
  show ?case
  proof (cases "c = 0x130")
    case True
    then have "length (toLowerUnit c) = 2" by (simp add: toLowerUnit_def)
    with len show ?thesis by (simp add: toLowerCase_Cons)
  next
    case False
    with Cons.prems have "0x130 \<in> set s" by simp
    then have "length s < length (toLowerCase s)" by (rule Cons.IH)
    moreover have "1 \<le> length (toLowerUnit c)" by (rule length_toLowerUnit)
    ultimately show ?thesis by (simp add: toLowerCase_Cons)
  qed
qed

lemma allowedExtensions_shape:
  "e \<in> set allowedExtensions \<Longrightarrow> \<exists>t. e = dot # t \<and> dot \<notin> set t"
  by (auto simp: allowedExtensions_def js_def dot_def)

section \<open>The extension test of the drop listener\<close>

lemma ext_of_no_dot: "dot \<notin> set n \<Longrightarrow> ext_of n = toLowerCase n"
  by (simp add: ext_of_def substring_def lastIndexOf_absent [THEN iffD2])

text \<open>
  With the last dot of the name at index \<open>length pre\<close>, the listener cuts the lower-cased
  name at that index, which lies before the dot when lower-casing has lengthened \<open>pre\<close>.
\<close>

lemma ext_of_split:
  assumes "dot \<notin> set suf"
  shows "ext_of (pre @ dot # suf) =
           drop (length pre) (toLowerCase pre) @ dot # toLowerCase suf"
proof -
  have len: "length pre \<le> length (toLowerCase pre)" by (rule length_toLowerCase_lower)
  have idx: "lastIndexOf (pre @ dot # suf) dot = int (length pre)"
    using assms by (rule lastIndexOf_append)
  have low: "toLowerCase (pre @ dot # suf) = toLowerCase pre @ dot # toLowerCase suf"
    by (simp add: toLowerCase_append toLowerCase_Cons toLowerUnit_dot)
  show ?thesis
    using len by (simp add: ext_of_def idx low substring_def min_def)
qed

lemma accepts_allowListed:
  assumes "accepts n"
  shows "allowListed n \<and> 0x130 \<notin> set (stem n)"
proof -
  from assms have mem: "ext_of n \<in> set allowedExtensions"
    by (simp add: accepts_def indexOf_absent)
  then obtain t where t: "ext_of n = dot # t" "dot \<notin> set t"
    using allowedExtensions_shape by blast
  have "dot \<in> set n"
  proof (rule ccontr)
    assume "dot \<notin> set n"
    then have "ext_of n = toLowerCase n" "dot \<notin> set (toLowerCase n)"
      by (simp_all add: ext_of_no_dot dot_in_toLowerCase)
    with t show False by simp
  qed
  then obtain pre suf where n: "n = pre @ dot # suf" "dot \<notin> set suf"
    by (rule last_occurrence)
  define r where "r = drop (length pre) (toLowerCase pre)"
  have e: "ext_of n = r @ dot # toLowerCase suf"
    using n by (simp add: ext_of_split r_def)
  have "r = []"
  proof (cases r)
    case Nil
    then show ?thesis .
  next
    case (Cons x xs)
    with e t have "dot \<in> set t" by simp
    with t show ?thesis by simp
  qed
  then have len: "length (toLowerCase pre) \<le> length pre"
    by (simp add: r_def)
  have plain: "0x130 \<notin> set pre"
  proof
    assume "0x130 \<in> set pre"
    then have "length pre < length (toLowerCase pre)" by (rule length_toLowerCase_longer)
    with len show False by simp
  qed
  have x: "extension n = Some (dot # suf)"
    using n by (simp add: extension_append)
  have "toLowerCase (dot # suf) = ext_of n"
    using e \<open>r = []\<close> by (simp add: toLowerCase_Cons toLowerUnit_dot)
  with mem have "allowListed n" by (simp add: allowListed_def x)
  moreover have "stem n = pre" using n by (simp add: stem_append)
  ultimately show ?thesis using plain by simp
qed

lemma allowListed_accepts:
  assumes "allowListed n" and "0x130 \<notin> set (stem n)"
  shows "accepts n"
proof -
  from assms(1) obtain e where e: "extension n = Some e" "toLowerCase e \<in> set allowedExtensions"
    by (auto simp: allowListed_def split: option.splits)
  then have "dot \<in> set n" using extension_absent [of n] by auto
  then obtain pre suf where n: "n = pre @ dot # suf" "dot \<notin> set suf"
    by (rule last_occurrence)
  then have x: "extension n = Some (dot # suf)" by (simp add: extension_append)
  with e have e': "e = dot # suf" by simp
  have "stem n = pre" using n by (simp add: stem_append)
  with assms(2) have "length (toLowerCase pre) = length pre"
    by (simp add: length_toLowerCase_plain)
  then have "ext_of n = toLowerCase e"
    using n by (simp add: ext_of_split e' toLowerCase_Cons toLowerUnit_dot)
  with e show ?thesis by (simp add: accepts_def indexOf_absent)
qed

text \<open>
  The listener's test against the specification's: the listener accepts a name exactly when
  its extension is on the allow-list and no U+0130 stands before the extension.
\<close>

lemma accepts_iff: "accepts n \<longleftrightarrow> allowListed n \<and> 0x130 \<notin> set (stem n)"
  using accepts_allowListed allowListed_accepts by blast

section \<open>The listeners of the upload zone\<close>

lemmas string_eval = js_def dot_def toLowerCase_def toLowerUnit_def ext_of_def substring_def
  allowedExtensions_def Let_def

lemmas page_eval = full_page_def formless_page_def full_zone_def full_input_def
  initUploadZone_def updateFileName_def uploadForm_submit_def classList_remove_def
  final_page_def thrown_def submissions_def

lemma initUploadZone_Some:
  "initUploadZone p = Some (zone, input) \<longleftrightarrow>
     uploadZone p = Some zone \<and> cvFileInput p = Some input"
  by (auto simp: initUploadZone_def split: option.splits)

lemma initUploadZone_full: "initUploadZone full_page = Some (full_zone, full_input)"
  by (simp add: initUploadZone_def full_page_def)

lemma updateFileName_shown:
  assumes "uploadZone p = Some zone"
  shows "updateFileName n p =
           p\<lparr>uploadZone :=
               Some (zone\<lparr>uploadtext :=
                            map_option (\<lambda>_. js ''Uploading: '' @ n) (uploadtext zone)\<rparr>)\<rparr>"
proof (cases "uploadtext zone")
  case None
  then have "zone\<lparr>uploadtext := None\<rparr> = zone" by simp
  with None assms show ?thesis by (simp add: updateFileName_def)
next
  case (Some t)
  with assms show ?thesis by (simp add: updateFileName_def)
qed

lemma showAlert_rejection:
  "showAlert (js ''Only PDF, DOCX, and TXT files are accepted.'') (js ''danger'') p =
     (case alertContainer p of
        None \<Rightarrow> p
      | Some children \<Rightarrow>
          p\<lparr>alertContainer := Some (rejection_alert (created p) # children),
            timers := timers p @ [(5000, created p)],
            created := created p + 1\<rparr>)"
  by (simp add: showAlert_def rejection_alert_def js_def split: option.splits)

lemma zone_drop_rejects:
  assumes "initUploadZone p = Some (zone, input)" and "\<not> accepts (name f)"
  shows "zone_drop (f # fs) p =
           Inr (showAlert (js ''Only PDF, DOCX, and TXT files are accepted.'') (js ''danger'')
                  (p\<lparr>uploadZone :=
                       Some (zone\<lparr>classList :=
                                    classList_remove (js ''dragover'') (classList zone)\<rparr>)\<rparr>))"
  using assms by (simp add: zone_drop_def accepts_def)

lemma zone_drop_accepts:
  assumes "initUploadZone p = Some (zone, input)" and "accepts (name f)"
  shows "zone_drop (f # fs) p =
           uploadForm_submit
             (updateFileName (name f)
                (p\<lparr>uploadZone :=
                     Some (zone\<lparr>classList :=
                                  classList_remove (js ''dragover'') (classList zone)\<rparr>),
                   cvFileInput := Some (input\<lparr>files := f # fs\<rparr>)\<rparr>))"
  using assms by (simp add: zone_drop_def accepts_def)

text \<open>
  An accepted drop on a page with the upload form: the zone loses \<open>dragover\<close>, the status
  text (when the zone has one) names the first file, the file input receives the whole
  dropped list, and the form is submitted once, with that list.
\<close>

lemma drop_accepted:
  assumes "initUploadZone p = Some (zone, input)"
    and "uploadForm p = Some subs"
    and "allowListed (name f)"
    and "0x130 \<notin> set (stem (name f))"
  shows "zone_drop (f # fs) p =
           Inr (p\<lparr>uploadZone :=
                    Some (zone\<lparr>classList := classList_remove (js ''dragover'') (classList zone),
                               uploadtext :=
                                 map_option (\<lambda>_. js ''Uploading: '' @ name f) (uploadtext zone)\<rparr>),
                  cvFileInput := Some (input\<lparr>files := f # fs\<rparr>),
                  uploadForm := Some (subs @ [f # fs])\<rparr>)"
proof -
  from assms(3,4) have "accepts (name f)" by (simp add: accepts_iff)
  with assms(1) have "zone_drop (f # fs) p =
           uploadForm_submit
             (updateFileName (name f)
                (p\<lparr>uploadZone :=
                     Some (zone\<lparr>classList :=
                                  classList_remove (js ''dragover'') (classList zone)\<rparr>),
                   cvFileInput := Some (input\<lparr>files := f # fs\<rparr>)\<rparr>))"
    by (rule zone_drop_accepts)
  then show ?thesis
    using assms(2) by (simp add: updateFileName_shown uploadForm_submit_def)
qed

text \<open>The scenario of the specification: dropping \<open>Resume.DOCX\<close>.\<close>

lemma drop_Resume_DOCX:
  "zone_drop [\<lparr>name = js ''Resume.DOCX''\<rparr>] full_page =
     Inr (full_page\<lparr>uploadZone :=
            Some \<lparr>classList = [js ''upload-zone''],
                  uploadtext = Some (js ''Uploading: Resume.DOCX'')\<rparr>,
            cvFileInput := Some \<lparr>files = [\<lparr>name = js ''Resume.DOCX''\<rparr>], pickerOpened = 0\<rparr>,
            uploadForm := Some [[\<lparr>name = js ''Resume.DOCX''\<rparr>]]\<rparr>)"
  by (simp add: zone_drop_def string_eval page_eval)

text \<open>On a page without the upload form every accepted drop throws.\<close>

lemma drop_accepted_formless:
  assumes "initUploadZone p = Some (zone, input)"
    and "uploadForm p = None"
    and "accepts (name f)"
  shows "thrown (zone_drop (f # fs) p) = Some TypeError"
  using assms(2)
  by (simp add: zone_drop_accepts [OF assms(1,3)] initUploadZone_Some updateFileName_shown
        uploadForm_submit_def thrown_def)

text \<open>
  C1. Every operation checks that the elements it needs exist and skips silently when
  one is absent; in particular an accepted drop and a non-empty picker selection complete
  without an error on a page that lacks the upload form.

  The listeners look the form up without a check: on the page without the form, dropping
  \<open>cv.pdf\<close> and selecting \<open>cv.pdf\<close> in the picker both throw a \<open>TypeError\<close>.
\<close>

theorem accepted_name_throws_without_form:
  "thrown (zone_drop [\<lparr>name = js ''cv.pdf''\<rparr>] formless_page) = Some TypeError
   \<and> thrown (picker_select [\<lparr>name = js ''cv.pdf''\<rparr>] formless_page) = Some TypeError"
  by (simp add: zone_drop_def picker_select_def input_change_def string_eval page_eval)

text \<open>
  C2. The allow-list check is the same on both paths: the picker path accepts and submits a
  file name exactly when the drop path does.

  The change listener has no check: selecting \<open>setup.exe\<close> in the picker submits the
  form, dropping the same file submits nothing and shows the rejection alert.
\<close>

theorem picker_submits_what_drop_rejects:
  "submissions (final_page (picker_select [\<lparr>name = js ''setup.exe''\<rparr>] full_page))
     = [[\<lparr>name = js ''setup.exe''\<rparr>]]
   \<and> submissions (final_page (zone_drop [\<lparr>name = js ''setup.exe''\<rparr>] full_page)) = []
   \<and> alertContainer (final_page (zone_drop [\<lparr>name = js ''setup.exe''\<rparr>] full_page))
     = Some [rejection_alert 0]"
  by (simp add: zone_drop_def picker_select_def input_change_def showAlert_def
        rejection_alert_def string_eval page_eval)

text \<open>
  C3. Of a drop with one or more files only the first is taken, and at most one file is
  attached to the upload form when it is submitted.

  The listener tests and shows the first file only, and assigns the whole dropped list to
  the file input: dropping \<open>cv.pdf\<close> together with \<open>payload.exe\<close> submits the form with
  both files attached.
\<close>

theorem drop_attaches_every_file:
  "submissions (final_page
      (zone_drop [\<lparr>name = js ''cv.pdf''\<rparr>, \<lparr>name = js ''payload.exe''\<rparr>] full_page))
     = [[\<lparr>name = js ''cv.pdf''\<rparr>, \<lparr>name = js ''payload.exe''\<rparr>]]"
  by (simp add: zone_drop_def string_eval page_eval)

text \<open>
  C4. A dropped file whose extension, compared without regard to case, is \<open>.pdf\<close>,
  \<open>.docx\<close> or \<open>.txt\<close> is accepted: the files go to the file input, the status text
  becomes \<open>Uploading: \<close> and the name, and the form is submitted once.

  The name U+0130 \<open>.pdf\<close> has the extension \<open>.pdf\<close>. The listener takes the index of the
  dot (1) in the name as given and cuts the lower-cased name there; lower-casing has turned
  U+0130 into two code units, so the cut yields U+0307 \<open>.pdf\<close>, which is not on the list:
  the drop is rejected with the alert and nothing is submitted.
\<close>

theorem dotted_capital_I_name_rejected:
  "allowListed (0x130 # js ''.pdf'')
   \<and> ext_of (0x130 # js ''.pdf'') = 0x307 # js ''.pdf''
   \<and> submissions (final_page (zone_drop [\<lparr>name = 0x130 # js ''.pdf''\<rparr>] full_page)) = []
   \<and> alertContainer (final_page (zone_drop [\<lparr>name = 0x130 # js ''.pdf''\<rparr>] full_page))
     = Some [rejection_alert 0]"
  by (simp add: zone_drop_def allowListed_def showAlert_def rejection_alert_def
        string_eval page_eval)

lemma not_allowListed_examples:
  "\<not> allowListed (js ''setup.exe'')"
  "\<not> allowListed (js ''cv.PDF '')"
  "\<not> allowListed (js ''README'')"
  by (simp_all add: allowListed_def allowedExtensions_def js_def dot_def
        toLowerCase_def toLowerUnit_def)

text \<open>
  C5. A dropped file whose extension is not on the allow-list (\<open>.exe\<close>, \<open>.PDF\<close> followed
  by a space, no extension at all) is rejected: the danger alert with the fixed message is
  shown, the form is not submitted, and the file input and the form stay as they were.

  The alert becomes the first child of the alert container (on a page without the
  container none is shown); the form, the file input and the status text are unchanged.
\<close>

theorem drop_rejected:
  assumes "initUploadZone p = Some (zone, input)"
    and "\<not> allowListed (name f)"
  shows "\<exists>p'. zone_drop (f # fs) p = Inr p'
           \<and> alertContainer p' = map_option ((#) (rejection_alert (created p))) (alertContainer p)
           \<and> uploadForm p' = uploadForm p
           \<and> cvFileInput p' = cvFileInput p
           \<and> map_option uploadtext (uploadZone p') = map_option uploadtext (uploadZone p)"
proof -
  from assms(2) have "\<not> accepts (name f)" by (simp add: accepts_iff)
  with assms(1) have "zone_drop (f # fs) p =
           Inr (showAlert (js ''Only PDF, DOCX, and TXT files are accepted.'') (js ''danger'')
                  (p\<lparr>uploadZone :=
                       Some (zone\<lparr>classList :=
                                    classList_remove (js ''dragover'') (classList zone)\<rparr>)\<rparr>))"
    by (rule zone_drop_rejects)
  moreover from assms(1) have "uploadZone p = Some zone"
    by (simp add: initUploadZone_Some)
  ultimately show ?thesis
    by (simp add: showAlert_rejection split: option.splits)
qed

theorem drop_rejected_witness:
  "(\<exists>p'. zone_drop [\<lparr>name = js ''setup.exe''\<rparr>] full_page = Inr p'
      \<and> alertContainer p' = Some [rejection_alert 0]
      \<and> uploadForm p' = Some []
      \<and> cvFileInput p' = Some full_input)
   \<and> (\<exists>p'. zone_drop [\<lparr>name = js ''cv.PDF ''\<rparr>] full_page = Inr p'
      \<and> alertContainer p' = Some [rejection_alert 0]
      \<and> uploadForm p' = Some []
      \<and> cvFileInput p' = Some full_input)
   \<and> (\<exists>p'. zone_drop [\<lparr>name = js ''README''\<rparr>] full_page = Inr p'
      \<and> alertContainer p' = Some [rejection_alert 0]
      \<and> uploadForm p' = Some []
      \<and> cvFileInput p' = Some full_input)"
proof -
  have exe: "\<not> allowListed (name \<lparr>name = js ''setup.exe''\<rparr>)"
    and spaced: "\<not> allowListed (name \<lparr>name = js ''cv.PDF ''\<rparr>)"
    and bare: "\<not> allowListed (name \<lparr>name = js ''README''\<rparr>)"
    by (simp_all add: not_allowListed_examples)
  show ?thesis
    using drop_rejected [OF initUploadZone_full exe, of "[]"]
      drop_rejected [OF initUploadZone_full spaced, of "[]"]
      drop_rejected [OF initUploadZone_full bare, of "[]"]
    by (auto simp: full_page_def)
qed

text \<open>
  C6. For every non-empty selection the native picker reports, the change listener shows
  the name of the first file and submits the form at once; no extension check is made on
  this path.

  The statement holds for every name; the form must exist for the submission, and the
  status text is written when the zone has one.
\<close>

theorem change_submits:
  assumes "initUploadZone p = Some (zone, input)"
    and "files input = f # fs"
    and "uploadForm p = Some subs"
  shows "input_change p =
           Inr (p\<lparr>uploadZone :=
                    Some (zone\<lparr>uploadtext :=
                                 map_option (\<lambda>_. js ''Uploading: '' @ name f) (uploadtext zone)\<rparr>),
                  uploadForm := Some (subs @ [f # fs])\<rparr>)"
proof -
  from assms(1) have z: "uploadZone p = Some zone" and i: "cvFileInput p = Some input"
    by (simp_all add: initUploadZone_Some)
  show ?thesis
    using assms i by (simp add: input_change_def updateFileName_shown [OF z] uploadForm_submit_def)
qed

theorem change_submits_witness:
  "input_change
     (full_page\<lparr>cvFileInput := Some (full_input\<lparr>files := [\<lparr>name = js ''setup.exe''\<rparr>]\<rparr>)\<rparr>) =
     Inr (full_page\<lparr>cvFileInput := Some (full_input\<lparr>files := [\<lparr>name = js ''setup.exe''\<rparr>]\<rparr>),
            uploadZone := Some (full_zone\<lparr>uploadtext := Some (js ''Uploading: setup.exe'')\<rparr>),
            uploadForm := Some [[\<lparr>name = js ''setup.exe''\<rparr>]]\<rparr>)"
  using change_submits
    [of "full_page\<lparr>cvFileInput := Some (full_input\<lparr>files := [\<lparr>name = js ''setup.exe''\<rparr>]\<rparr>)\<rparr>"
      full_zone "full_input\<lparr>files := [\<lparr>name = js ''setup.exe''\<rparr>]\<rparr>"
      "\<lparr>name = js ''setup.exe''\<rparr>" "[]" "[]"]
  by (simp add: initUploadZone_def full_page_def full_zone_def js_def)

text \<open>
  C10. A drop that carries no file only removes the \<open>dragover\<close> class from the zone: no
  alert, no change to the file input or to the status text, no submission.
\<close>

theorem drop_nothing:
  assumes "initUploadZone p = Some (zone, input)"
  shows "zone_drop [] p =
           Inr (p\<lparr>uploadZone :=
                    Some (zone\<lparr>classList :=
                                 classList_remove (js ''dragover'') (classList zone)\<rparr>)\<rparr>)"
  using assms by (simp add: zone_drop_def)

theorem drop_nothing_witness:
  "zone_drop [] full_page =
     Inr (full_page\<lparr>uploadZone :=
            Some \<lparr>classList = [js ''upload-zone''],
                  uploadtext = Some (js ''Drop your CV here'')\<rparr>\<rparr>)"
  using drop_nothing [OF initUploadZone_full]
  by (simp add: full_zone_def classList_remove_def js_def)

section \<open>Theme toggle\<close>

lemma dark_not_light: "js ''dark'' \<noteq> js ''light''"
  by (simp add: js_def)

lemma dataTheme_updateThemeIcon: "dataTheme (updateThemeIcon t p) = dataTheme p"
  by (simp add: updateThemeIcon_def split: option.splits)

lemma localStorage_updateThemeIcon: "localStorage (updateThemeIcon t p) = localStorage p"
  by (simp add: updateThemeIcon_def split: option.splits)

lemma themeToggle_updateThemeIcon:
  "themeToggle (updateThemeIcon t p) = None \<longleftrightarrow> themeToggle p = None"
  by (simp add: updateThemeIcon_def split: option.splits)

lemma dataTheme_toggle_click:
  "themeToggle p \<noteq> None \<Longrightarrow>
   dataTheme (toggle_click p) =
     Some (if dataTheme p = Some (js ''dark'') then js ''light'' else js ''dark'')"
  by (auto simp: toggle_click_def Let_def dataTheme_updateThemeIcon)

lemma localStorage_toggle_click:
  "themeToggle p \<noteq> None \<Longrightarrow>
   localStorage (toggle_click p) (js ''theme'') = dataTheme (toggle_click p)"
  by (auto simp: toggle_click_def Let_def dataTheme_updateThemeIcon localStorage_updateThemeIcon)

lemma themeToggle_toggle_click:
  "themeToggle (toggle_click p) = None \<longleftrightarrow> themeToggle p = None"
  by (cases "themeToggle p") (simp_all add: toggle_click_def Let_def themeToggle_updateThemeIcon)

text \<open>
  C7. A click on the theme toggle replaces the displayed theme by its opposite among
  \<open>light\<close> and \<open>dark\<close> and stores it; two clicks bring the displayed theme back, and after
  every click the stored value is the displayed one.
\<close>

theorem toggle_click_involution:
  assumes "themeToggle p \<noteq> None"
  shows "dataTheme (toggle_click p) =
           Some (if dataTheme p = Some (js ''dark'') then js ''light'' else js ''dark'')
         \<and> localStorage (toggle_click p) (js ''theme'') = dataTheme (toggle_click p)
         \<and> (dataTheme p = Some (js ''light'') \<or> dataTheme p = Some (js ''dark'') \<longrightarrow>
              dataTheme (toggle_click (toggle_click p)) = dataTheme p)"
proof -
  have t: "themeToggle (toggle_click p) \<noteq> None"
    using assms by (simp add: themeToggle_toggle_click)
  have "dataTheme (toggle_click (toggle_click p)) = dataTheme p"
    if "dataTheme p = Some (js ''light'') \<or> dataTheme p = Some (js ''dark'')"
    using that dark_not_light
    by (auto simp: dataTheme_toggle_click [OF t] dataTheme_toggle_click [OF assms])
  then show ?thesis
    using assms by (simp add: dataTheme_toggle_click localStorage_toggle_click)
qed

theorem toggle_click_involution_witness:
  "dataTheme (toggle_click full_page) = Some (js ''dark'')
   \<and> localStorage (toggle_click full_page) (js ''theme'') = Some (js ''dark'')
   \<and> dataTheme (toggle_click (toggle_click full_page)) = Some (js ''light'')"
proof -
  have t: "themeToggle full_page \<noteq> None" and d: "dataTheme full_page = Some (js ''light'')"
    by (simp_all add: full_page_def)
  show ?thesis
    using toggle_click_involution [OF t] d dark_not_light by auto
qed

text \<open>
  The two themes are all the listener ever writes. A displayed value that is neither (the
  script applies whatever string local storage holds) is not restored by two clicks.
\<close>

lemma toggle_click_stray:
  "dataTheme (toggle_click (toggle_click (full_page\<lparr>dataTheme := Some (js ''blue'')\<rparr>)))
     = Some (js ''light'')"
  by (simp add: toggle_click_def updateThemeIcon_def full_page_def js_def Let_def)

section \<open>Sidebar toggle\<close>

lemma show_removed: "js ''show'' \<notin> set (classList_remove (js ''show'') cl)"
  by (simp add: classList_remove_def)

text \<open>
  C9. On a document click at a viewport width of at most 992, a target outside the sidebar
  and outside its toggle button makes the listener remove the class \<open>show\<close> from the
  sidebar; a target inside either leaves the page as it is.
\<close>

theorem document_click_closes:
  assumes "initSidebarToggle p = Some (btn, sb)"
    and "innerWidth p \<le> 992"
  shows "(\<not> contains SidebarNode path \<and> \<not> contains SidebarToggleNode path \<longrightarrow>
            document_click path p =
              p\<lparr>sidebar := Some (sb\<lparr>classList := classList_remove (js ''show'') (classList sb)\<rparr>)\<rparr>
            \<and> js ''show'' \<notin> set (classList_remove (js ''show'') (classList sb)))
         \<and> (contains SidebarNode path \<or> contains SidebarToggleNode path \<longrightarrow>
              document_click path p = p)"
  using assms by (auto simp: document_click_def show_removed)

theorem document_click_closes_witness:
  "document_click [OtherNode 7, OtherNode 0] full_page =
     full_page\<lparr>sidebar := Some \<lparr>classList = [js ''sidebar'']\<rparr>\<rparr>
   \<and> document_click [OtherNode 3, SidebarNode, OtherNode 0] full_page = full_page
   \<and> document_click [SidebarToggleNode, OtherNode 0] full_page = full_page"
proof -
  have i: "initSidebarToggle full_page = Some (\<lparr>classList = []\<rparr>, full_sidebar)"
    and w: "innerWidth full_page \<le> 992"
    by (simp_all add: initSidebarToggle_def full_page_def)
  show ?thesis
    using document_click_closes [OF i w, of "[OtherNode 7, OtherNode 0]"]
      document_click_closes [OF i w, of "[OtherNode 3, SidebarNode, OtherNode 0]"]
      document_click_closes [OF i w, of "[SidebarToggleNode, OtherNode 0]"]
    by (simp add: contains_def full_sidebar_def classList_remove_def js_def)
qed

text \<open>
  A click on the toggle button runs the button's own listener before the document's: on a
  shown sidebar that listener takes \<open>show\<close> away.
\<close>

lemma toggle_button_click_hides:
  "sidebar (document_click [SidebarToggleNode] (btn_click full_page))
     = Some \<lparr>classList = [js ''sidebar'']\<rparr>"
  by (simp add: document_click_def btn_click_def initSidebarToggle_def contains_def
        classList_toggle_def classList_remove_def full_page_def full_sidebar_def js_def)

section \<open>Alerts\<close>

text \<open>
  An injected alert is the first child of the container right after the call, and one
  timer of 5000 ms is pending for it.
\<close>

lemma showAlert_prepends:
  assumes "alertContainer p = Some children"
  shows \<open>alertContainer (showAlert message type p) =
           Some (\<lparr>nodeId = created p,
                  className = js ''alert alert-'' @ type @ js '' alert-dismissible fade show'',
                  innerHTML = message @
                    js ''<button type="button" class="btn-close" data-bs-dismiss="alert"></button>''\<rparr>
                 # children)
         \<and> timers (showAlert message type p) = timers p @ [(5000, created p)]
         \<and> parentNode (created p) (showAlert message type p)\<close>
  using assms by (simp add: showAlert_def parentNode_def)

text \<open>The callback does nothing to an alert that has left the container.\<close>

lemma showAlert_timeout_detached:
  "\<not> parentNode a p \<Longrightarrow> showAlert_timeout close a p = p"
  by (simp add: showAlert_timeout_def)

end
